theory Spec2Isabelle
  imports Complex_Main "HOL-Library.Word" "HOL-Library.Multiset"
begin

section \<open>Numbers, strings and raw data\<close>

text \<open>
  The widget of \<^verbatim>\<open>src/sunburst.js\<close> is glue over the d3 libraries. Every library call
  the widget makes is embedded as the function the library computes (d3-hierarchy 1.x:
  \<^verbatim>\<open>hierarchy\<close>, \<^verbatim>\<open>node.sum\<close>, \<^verbatim>\<open>node.sort\<close>, \<^verbatim>\<open>partition\<close>, \<^verbatim>\<open>treemapDice\<close>,
  \<^verbatim>\<open>node.each\<close>, \<^verbatim>\<open>node.descendants\<close>; d3-scale 1.x: \<^verbatim>\<open>scaleLinear\<close>, \<^verbatim>\<open>scaleSqrt\<close>;
  d3-interpolate; the data join of d3-selection), with the library's code quoted beside
  each definition.

  JavaScript numbers are modelled as exact reals: rounding of IEEE doubles is not part of
  the model. The one place where the widget divides by a quantity that can be zero keeps
  JavaScript's infinities and NaN explicit (\<open>js_div\<close> below). Strings are sequences of
  UTF-16 code units, which is what \<^verbatim>\<open>.length\<close> counts.
\<close>

type_synonym js_string = "16 word list"

text \<open>
  A RawNode, seen through the configured accessors: \<open>raw_label\<close> is what
  \<^verbatim>\<open>accessorFn(state.label)\<close> returns (\<open>None\<close> for \<^verbatim>\<open>undefined\<close>/\<^verbatim>\<open>null\<close>), \<open>raw_size\<close>
  what \<^verbatim>\<open>accessorFn(state.size)\<close> returns when it is a number (\<open>None\<close> when it is
  missing or not numeric), \<open>raw_children\<close> what \<^verbatim>\<open>accessorFn(state.children)\<close> returns
  (the empty list when it is missing or empty).
\<close>

datatype raw = Raw (raw_label: "js_string option") (raw_size: "real option") (raw_children: "raw list")

text \<open>
  A node of d3-hierarchy. \<open>attrs\<close> holds what the passes have computed so far: nothing
  after \<^verbatim>\<open>hierarchy\<close>, the aggregate value after \<^verbatim>\<open>sum\<close>, value and rectangle after
  \<^verbatim>\<open>partition\<close>.
\<close>

datatype 'a node = Node (ndata: raw) (depth: nat) (attrs: 'a) (children: "'a node list")

record rect =
  x0 :: real
  x1 :: real
  y0 :: real
  y1 :: real

record placed = rect +
  value_of :: real

type_synonym hnode = "unit node"
type_synonym vnode = "real node"
type_synonym lnode = "placed node"

section \<open>Hierarchy builder\<close>

text \<open>
  \<^verbatim>\<open>d3Hierarchy(state.data, accessorFn(state.children))\<close>: one node per raw node, the root
  at depth 0 and \<^verbatim>\<open>child.depth = node.depth + 1\<close>; a node whose children accessor gives
  nothing or an empty array is a leaf.
\<close>

fun hierarchy_at :: "nat \<Rightarrow> raw \<Rightarrow> hnode" where
  "hierarchy_at d (Raw l s ks) = Node (Raw l s ks) d () (map (hierarchy_at (Suc d)) ks)"

definition d3Hierarchy :: "raw \<Rightarrow> hnode" where
  "d3Hierarchy r = hierarchy_at 0 r"

text \<open>
  \<^verbatim>\<open>.sum(accessorFn(state.size))\<close>, in post-order:
  \<^verbatim>\<open>var sum = +value(node.data) || 0, children = node.children, i = children && children.length;
  while (--i >= 0) sum += children[i].value;
  node.value = sum;\<close>
  The node's own size counts, also when it has children; the children are added last first.
\<close>

definition to_number :: "real option \<Rightarrow> real" where
  "to_number v = (case v of None \<Rightarrow> 0 | Some x \<Rightarrow> x)"

fun sum_values :: "hnode \<Rightarrow> vnode" where
  "sum_values (Node r d u cs) =
     Node r d (foldr (\<lambda>c s. s + attrs c) (map sum_values cs) (to_number (raw_size r)))
       (map sum_values cs)"

text \<open>
  \<^verbatim>\<open>hierData.sort(state.sort)\<close>: in pre-order, \<^verbatim>\<open>node.children.sort(compare)\<close>.
  \<^verbatim>\<open>Array.prototype.sort\<close> is stable; for a comparator that is a total preorder its
  result is the stable insertion sort below.
\<close>

fun insert_by :: "('a \<Rightarrow> 'a \<Rightarrow> real) \<Rightarrow> 'a \<Rightarrow> 'a list \<Rightarrow> 'a list" where
  "insert_by cmp x [] = [x]"
| "insert_by cmp x (y # ys) = (if cmp x y \<le> 0 then x # y # ys else y # insert_by cmp x ys)"

definition sort_by :: "('a \<Rightarrow> 'a \<Rightarrow> real) \<Rightarrow> 'a list \<Rightarrow> 'a list" where
  "sort_by cmp xs = foldr (insert_by cmp) xs []"

lemma set_insert_by: "set (insert_by cmp x ys) = insert x (set ys)"
  by (induction ys) auto

lemma set_sort_by: "set (sort_by cmp xs) = set xs"
  by (induction xs) (simp_all add: sort_by_def set_insert_by)

function sort_nodes :: "(vnode \<Rightarrow> vnode \<Rightarrow> real) \<Rightarrow> vnode \<Rightarrow> vnode" where
  "sort_nodes cmp (Node r d v cs) = Node r d v (map (sort_nodes cmp) (sort_by cmp cs))"
  by pat_completeness auto
termination
  by (relation "measure (\<lambda>(cmp, n). size n)")
     (auto simp: set_sort_by less_Suc_eq_le size_list_estimation')

section \<open>Radial layout engine\<close>

text \<open>
  \<^verbatim>\<open>node.height\<close>, as \<^verbatim>\<open>computeHeight\<close> leaves it: 0 for a leaf, one more than the
  highest child otherwise.
\<close>

fun height_of :: "'a node \<Rightarrow> nat" where
  "height_of (Node r d a cs) =
     (if cs = [] then 0 else Suc (foldr (\<lambda>c m. max (height_of c) m) cs 0))"

text \<open>
  \<^verbatim>\<open>d3Partition().padding(0)(hierData)\<close>. No \<^verbatim>\<open>.size(...)\<close> is given, so the library's
  defaults \<^verbatim>\<open>dx = 1, dy = 1\<close> apply:
  \<^verbatim>\<open>var n = root.height + 1;
  root.x0 = root.y0 = padding; root.x1 = dx; root.y1 = dy / n;
  root.eachBefore(positionNode(dy, n));\<close>
  where \<^verbatim>\<open>positionNode\<close> is
  \<^verbatim>\<open>if (node.children) treemapDice(node, node.x0, dy * (node.depth + 1) / n,
                                          node.x1, dy * (node.depth + 2) / n);
  var x0 = node.x0, y0 = node.y0, x1 = node.x1 - padding, y1 = node.y1 - padding;
  if (x1 < x0) x0 = x1 = (x0 + x1) / 2;
  if (y1 < y0) y0 = y1 = (y0 + y1) / 2;\<close>
  and \<^verbatim>\<open>treemapDice(parent, x0, y0, x1, y1)\<close> is
  \<^verbatim>\<open>k = parent.value && (x1 - x0) / parent.value;
  while (++i < n) { node = nodes[i], node.y0 = y0, node.y1 = y1;
                    node.x0 = x0, node.x1 = x0 += node.value * k; }\<close>
  \<open>treemapDice\<close> below hands each child its rectangle and positions it at once; the
  pre-order walk of the source visits the child later with the same rectangle.
\<close>

fun positionNode :: "nat \<Rightarrow> real \<Rightarrow> real \<Rightarrow> real \<Rightarrow> real \<Rightarrow> vnode \<Rightarrow> lnode"
  and treemapDice :: "nat \<Rightarrow> real \<Rightarrow> real \<Rightarrow> real \<Rightarrow> real \<Rightarrow> vnode list \<Rightarrow> lnode list" where
  "positionNode n a0 b0 a1 b1 (Node r d v cs) =
     Node r d
       \<lparr>x0 = (if a1 < a0 then (a0 + a1) / 2 else a0),
        x1 = (if a1 < a0 then (a0 + a1) / 2 else a1),
        y0 = (if b1 < b0 then (b0 + b1) / 2 else b0),
        y1 = (if b1 < b0 then (b0 + b1) / 2 else b1),
        value_of = v\<rparr>
       (treemapDice n (if v = 0 then 0 else (a1 - a0) / v) a0
          (1 * (real d + 1) / real n) (1 * (real d + 2) / real n) cs)"
| "treemapDice n k a0 b0 b1 [] = []"
| "treemapDice n k a0 b0 b1 (c # cs) =
     positionNode n a0 b0 (a0 + attrs c * k) b1 c
       # treemapDice n k (a0 + attrs c * k) b0 b1 cs"

definition d3Partition :: "vnode \<Rightarrow> lnode" where
  "d3Partition rt =
     (let n = height_of rt + 1 in positionNode n 0 0 1 (1 / real n) rt)"

text \<open>
  \<^verbatim>\<open>node.descendants()\<close> collects the nodes with \<^verbatim>\<open>node.each\<close>, which walks the tree
  level by level:
  \<^verbatim>\<open>var node = this, current, next = [node], children, i, n;
  do { current = next.reverse(), next = [];
       while (node = current.pop()) {
         callback(node), children = node.children;
         if (children) for (i = 0, n = children.length; i < n; ++i) next.push(children[i]);
       }
  } while (next.length);\<close>
\<close>

lemma size_children: "size_list size (children n) < size n"
  by (cases n) simp

lemma size_concat_children:
  "size_list size (concat (map children ns)) \<le> size_list size ns"
proof (induction ns)
  case Nil
  then show ?case by simp
next
  case (Cons n ns)
  have "size_list size (children n) < size n"
    by (rule size_children)
  with Cons show ?case
    by simp
qed

function each :: "'a node list \<Rightarrow> 'a node list" where
  "each [] = []"
| "each (n # ns) = (n # ns) @ each (concat (map children (n # ns)))"
  by pat_completeness auto
termination
proof (relation "measure (size_list size)")
  show "wf (measure (size_list size))"
    by simp
next
  fix n :: "'a node" and ns :: "'a node list"
  have "size_list size (children n) < size n"
    by (rule size_children)
  moreover have "size_list size (concat (map children ns)) \<le> size_list size ns"
    by (rule size_concat_children)
  ultimately show "(concat (map children (n # ns)), n # ns) \<in> measure (size_list size)"
    by simp
qed

definition descendants :: "'a node \<Rightarrow> 'a node list" where
  "descendants rt = each [rt]"

section \<open>Scales\<close>

text \<open>
  A continuous d3 scale with a two-point domain and range. \<^verbatim>\<open>scale(x)\<close> is
  \<^verbatim>\<open>bimap(domain, range, deinterpolate, reinterpolate)(x)\<close>:
  \<^verbatim>\<open>if (d1 < d0) d0 = deinterpolate(d1, d0), r0 = reinterpolate(r1, r0);
  else d0 = deinterpolate(d0, d1), r0 = reinterpolate(r0, r1);
  return function(x) { return r0(d0(x)); };\<close>
  with \<^verbatim>\<open>reinterpolate(a, b)(t) = a + (b - a) * t\<close>. The linear scale deinterpolates with
  \<^verbatim>\<open>(b -= a) ? (x - a) / b : 0\<close>, clamped (\<^verbatim>\<open>.clamp(true)\<close>) to
  \<^verbatim>\<open>x <= a ? 0 : x >= b ? 1 : d(x)\<close>; the square-root scale (\<^verbatim>\<open>scaleSqrt\<close>, a power
  scale of exponent 0.5) with
  \<^verbatim>\<open>(b = raise(b) - (a = raise(a))) ? (raise(x) - a) / b : 0\<close>, where
  \<^verbatim>\<open>raise(x) = x < 0 ? -Math.pow(-x, 0.5) : Math.pow(x, 0.5)\<close>, and is not clamped.
\<close>

record scale =
  domain :: "real \<times> real"
  rng :: "real \<times> real"

definition interpolateNumber :: "real \<Rightarrow> real \<Rightarrow> real \<Rightarrow> real" where
  "interpolateNumber a b t = a + (b - a) * t"

definition deinterpolateLinear :: "real \<Rightarrow> real \<Rightarrow> real \<Rightarrow> real" where
  "deinterpolateLinear a b x = (if b - a = 0 then 0 else (x - a) / (b - a))"

definition deinterpolateClamp :: "(real \<Rightarrow> real \<Rightarrow> real \<Rightarrow> real) \<Rightarrow> real \<Rightarrow> real \<Rightarrow> real \<Rightarrow> real" where
  "deinterpolateClamp de a b x = (if x \<le> a then 0 else if x \<ge> b then 1 else de a b x)"

definition raise :: "real \<Rightarrow> real" where
  "raise x = (if x < 0 then - sqrt (- x) else sqrt x)"

definition deinterpolatePow :: "real \<Rightarrow> real \<Rightarrow> real \<Rightarrow> real" where
  "deinterpolatePow a b x =
     (if raise b - raise a = 0 then 0 else (raise x - raise a) / (raise b - raise a))"

definition bimap :: "(real \<Rightarrow> real \<Rightarrow> real \<Rightarrow> real) \<Rightarrow> scale \<Rightarrow> real \<Rightarrow> real" where
  "bimap de s x =
     (if snd (domain s) < fst (domain s)
      then interpolateNumber (snd (rng s)) (fst (rng s)) (de (snd (domain s)) (fst (domain s)) x)
      else interpolateNumber (fst (rng s)) (snd (rng s)) (de (fst (domain s)) (snd (domain s)) x))"

text \<open>\<^verbatim>\<open>d3Interpolate\<close> of two arrays of two numbers, componentwise.\<close>

definition d3Interpolate :: "real \<times> real \<Rightarrow> real \<times> real \<Rightarrow> real \<Rightarrow> real \<times> real" where
  "d3Interpolate a b t = (interpolateNumber (fst a) (fst b) t, interpolateNumber (snd a) (snd b) t)"

section \<open>Widget state\<close>

definition TRANSITION_DURATION :: nat where
  "TRANSITION_DURATION = 750"

definition CHAR_PX :: real where
  "CHAR_PX = 6"

text \<open>
  \<open>focusOnNode\<close> holds a RawNode given by the caller; all the widget reads of it is its
  \<^verbatim>\<open>__dataNode\<close> link, which \<^verbatim>\<open>_parseData\<close> installs on the raw nodes it lays out
  (\<open>None\<close>: the raw node carries no link).
\<close>

datatype focus = Focus (dataNode: "lnode option")

text \<open>
  A \<^verbatim>\<open>g.slice\<close> element of the canvas, with what the widget sets on it: the bound datum,
  the inline \<^verbatim>\<open>opacity\<close> style, a transition of the opacity that has been scheduled
  (target and duration), whether the element is removed when that transition ends, the
  events with a listener, the duration of the scheduled tween of the arc path, and the
  text of the label.
\<close>

record slice =
  datum :: "nat \<times> lnode"
  opacity :: real
  fade :: "(real \<times> nat) option"
  removed :: bool
  listeners :: "string list"
  arc_tween :: "nat option"
  label_text :: js_string

record state =
  width :: real
  height :: real
  data :: "raw option"
  sort_cmp :: "(vnode \<Rightarrow> vnode \<Rightarrow> real) option"
  minSliceAngle :: real
  showLabels :: bool
  focusOnNode :: "focus option"
  layoutData :: "(nat \<times> lnode) list option"
  angleScale :: scale
  radiusScale :: scale
  zoom :: "((real \<times> real) \<times> (real \<times> real)) option"
  canvas :: "nat \<rightharpoonup> slice"

text \<open>
  \<^verbatim>\<open>init\<close>, with the defaults of \<^verbatim>\<open>props\<close>; \<open>w\<close> and \<open>h\<close> are
  \<^verbatim>\<open>window.innerWidth\<close> and \<^verbatim>\<open>window.innerHeight\<close>. \<open>zoom\<close> is the pending
  \<^verbatim>\<open>'scale'\<close> tween of the svg element: the targets of the two domains.
\<close>

definition init :: "real \<Rightarrow> real \<Rightarrow> state" where
  "init w h =
     \<lparr>width = w, height = h, data = None, sort_cmp = None, minSliceAngle = 2 / 10,
      showLabels = True, focusOnNode = None, layoutData = None,
      angleScale = \<lparr>domain = (0, 10), rng = (0, 2 * pi)\<rparr>,
      radiusScale = \<lparr>domain = (0, 1), rng = (0, 1)\<rparr>,
      zoom = None, canvas = Map.empty\<rparr>"

text \<open>
  \<^verbatim>\<open>_parseData\<close>: nothing happens unless \<^verbatim>\<open>state.data\<close> is set. The ids are the
  positions in \<^verbatim>\<open>hierData.descendants()\<close>.
\<close>

definition hierData :: "(vnode \<Rightarrow> vnode \<Rightarrow> real) option \<Rightarrow> raw \<Rightarrow> vnode" where
  "hierData srt r =
     (case srt of
        None \<Rightarrow> sum_values (d3Hierarchy r)
      | Some cmp \<Rightarrow> sort_nodes cmp (sum_values (d3Hierarchy r)))"

definition layout :: "(vnode \<Rightarrow> vnode \<Rightarrow> real) option \<Rightarrow> raw \<Rightarrow> (nat \<times> lnode) list" where
  "layout srt r = enumerate 0 (descendants (d3Partition (hierData srt r)))"

definition parseData :: "state \<Rightarrow> state" where
  "parseData st =
     (case data st of
        None \<Rightarrow> st
      | Some r \<Rightarrow> st\<lparr>layoutData := Some (layout (sort_cmp st) r)\<rparr>)"

text \<open>The setter of the \<^verbatim>\<open>data\<close> property: \<^verbatim>\<open>onChange: function() { this._parseData(); }\<close>.\<close>

definition set_data :: "raw option \<Rightarrow> state \<Rightarrow> state" where
  "set_data v st = parseData (st\<lparr>data := v\<rparr>)"

section \<open>Geometry\<close>

definition angle_at :: "state \<Rightarrow> real \<Rightarrow> real" where
  "angle_at st x = bimap (deinterpolateClamp deinterpolateLinear) (angleScale st) x"

definition radius_at :: "state \<Rightarrow> real \<Rightarrow> real" where
  "radius_at st y = bimap deinterpolatePow (radiusScale st) y"

definition innerRadius :: "state \<Rightarrow> lnode \<Rightarrow> real" where
  "innerRadius st d = max 0 (radius_at st (y0 (attrs d)))"

definition outerRadius :: "state \<Rightarrow> lnode \<Rightarrow> real" where
  "outerRadius st d = max 0 (radius_at st (y1 (attrs d)))"

text \<open>
  \<^verbatim>\<open>textFits\<close>. \<^verbatim>\<open>nameOf(d.data).toString()\<close> throws a TypeError when the label
  accessor gives \<^verbatim>\<open>undefined\<close> or \<^verbatim>\<open>null\<close>.
\<close>

datatype js_error = TypeError

definition deltaAngle :: "state \<Rightarrow> lnode \<Rightarrow> real" where
  "deltaAngle st d = angle_at st (x1 (attrs d)) - angle_at st (x0 (attrs d))"

definition mean_radius :: "state \<Rightarrow> lnode \<Rightarrow> real" where
  "mean_radius st d = max 0 ((radius_at st (y0 (attrs d)) + radius_at st (y1 (attrs d))) / 2)"

definition perimeter :: "state \<Rightarrow> lnode \<Rightarrow> real" where
  "perimeter st d = mean_radius st d * deltaAngle st d"

definition textFits :: "state \<Rightarrow> lnode \<Rightarrow> js_error + bool" where
  "textFits st d =
     (case raw_label (ndata d) of
        None \<Rightarrow> Inl TypeError
      | Some s \<Rightarrow> Inr (real (length s) * CHAR_PX < perimeter st d))"

text \<open>
  The \<^verbatim>\<open>display\<close> style of a label, as the style tween computes it in every frame:
  \<^verbatim>\<open>state.showLabels && textFits(d) ? null : 'none'\<close>.
\<close>

datatype display = Shown | DisplayNone

definition label_display :: "state \<Rightarrow> lnode \<Rightarrow> js_error + display" where
  "label_display st d =
     (if showLabels st
      then (case textFits st d of
              Inl e \<Rightarrow> Inl e
            | Inr fits \<Rightarrow> Inr (if fits then Shown else DisplayNone))
      else Inr DisplayNone)"

section \<open>Render\<close>

text \<open>
  The focus window of \<^verbatim>\<open>update\<close>:
  \<^verbatim>\<open>(state.focusOnNode && state.focusOnNode.__dataNode) || { x0: 0, x1: 1, y0: 0, y1: 1 }\<close>.
\<close>

definition focusD :: "state \<Rightarrow> rect" where
  "focusD st =
     (case focusOnNode st of
        None \<Rightarrow> \<lparr>x0 = 0, x1 = 1, y0 = 0, y1 = 1\<rparr>
      | Some f \<Rightarrow>
          (case dataNode f of
             None \<Rightarrow> \<lparr>x0 = 0, x1 = 1, y0 = 0, y1 = 1\<rparr>
           | Some d \<Rightarrow> \<lparr>x0 = x0 (attrs d), x1 = x1 (attrs d), y0 = y0 (attrs d), y1 = y1 (attrs d)\<rparr>))"

text \<open>
  The filter of the data join:
  \<^verbatim>\<open>d.x1 >= focusD.x0 && d.x0 <= focusD.x1
  && (d.x1-d.x0)/(focusD.x1-focusD.x0) > state.minSliceAngle/360\<close>.
  The divisor is zero when the focus window is empty; JavaScript then gives an infinity
  or NaN, and NaN compares false.
\<close>

datatype jsnum = Fin real | PosInf | NegInf | NaN

definition js_div :: "real \<Rightarrow> real \<Rightarrow> jsnum" where
  "js_div a b =
     (if b \<noteq> 0 then Fin (a / b) else if 0 < a then PosInf else if a < 0 then NegInf else NaN)"

fun js_gt :: "jsnum \<Rightarrow> real \<Rightarrow> bool" where
  "js_gt (Fin a) c = (a > c)"
| "js_gt PosInf c = True"
| "js_gt NegInf c = False"
| "js_gt NaN c = False"

definition slice_shown :: "rect \<Rightarrow> real \<Rightarrow> lnode \<Rightarrow> bool" where
  "slice_shown f msa d \<longleftrightarrow>
     x1 (attrs d) \<ge> x0 f \<and> x0 (attrs d) \<le> x1 f
     \<and> js_gt (js_div (x1 (attrs d) - x0 (attrs d)) (x1 f - x0 f)) (msa / 360)"

text \<open>
  The three selections of the join, keyed by \<^verbatim>\<open>d => d.id\<close>. Entering:
  \<^verbatim>\<open>slice.enter().append('g').attr('class', 'slice').style('opacity', 0).on('click', ...)
  .on('mouseover', ...).on('mouseout', ...)\<close>. Exiting:
  \<^verbatim>\<open>slice.exit().transition(transition).style('opacity', 0).remove()\<close>, with a tween of
  the arc. Entering and updating, \<^verbatim>\<open>slice.merge(newSlice)\<close>:
  \<^verbatim>\<open>allSlices.style('opacity', 1)\<close>, tweens of the arc paths on \<^verbatim>\<open>transition\<close>, and the
  label text \<^verbatim>\<open>nameOf(d.data)\<close>.
\<close>

definition enter_slice :: "nat \<times> lnode \<Rightarrow> slice" where
  "enter_slice d =
     \<lparr>datum = d, opacity = 0, fade = None, removed = False,
      listeners = [''click'', ''mouseover'', ''mouseout''], arc_tween = None, label_text = []\<rparr>"

definition exit_slice :: "slice \<Rightarrow> slice" where
  "exit_slice e =
     e\<lparr>fade := Some (0, TRANSITION_DURATION), removed := True,
       arc_tween := Some TRANSITION_DURATION\<rparr>"

definition merge_slice :: "nat \<times> lnode \<Rightarrow> slice \<Rightarrow> slice" where
  "merge_slice d e =
     e\<lparr>datum := d, opacity := 1, arc_tween := Some TRANSITION_DURATION,
       label_text := (case raw_label (ndata (snd d)) of None \<Rightarrow> [] | Some s \<Rightarrow> s)\<rparr>"

definition join :: "(nat \<rightharpoonup> slice) \<Rightarrow> (nat \<times> lnode) list \<Rightarrow> (nat \<rightharpoonup> slice)" where
  "join els vis k =
     (case map_of vis k of
        None \<Rightarrow> map_option exit_slice (els k)
      | Some d \<Rightarrow>
          Some (merge_slice (k, d) (case els k of None \<Rightarrow> enter_slice (k, d) | Some e \<Rightarrow> e)))"

definition visible :: "state \<Rightarrow> (nat \<times> lnode) list \<Rightarrow> (nat \<times> lnode) list" where
  "visible st ld = filter (\<lambda>d. slice_shown (focusD st) (minSliceAngle st) (snd d)) ld"

definition update :: "state \<Rightarrow> state" where
  "update st =
     (let maxRadius = min (width st) (height st) / 2;
          st1 = st\<lparr>radiusScale := (radiusScale st)\<lparr>rng := (maxRadius * (1 / 10), maxRadius)\<rparr>\<rparr>
      in case layoutData st1 of
           None \<Rightarrow> st1
         | Some ld \<Rightarrow>
             st1\<lparr>zoom := Some ((x0 (focusD st1), x1 (focusD st1)), (y0 (focusD st1), 1)),
                 canvas := join (canvas st1) (visible st1 ld)\<rparr>)"

text \<open>
  The \<^verbatim>\<open>'scale'\<close> tween. Its factory runs when the transition starts, in state \<open>st0\<close>:
  \<^verbatim>\<open>const xd = d3Interpolate(state.angleScale.domain(), [focusD.x0, focusD.x1]);
  const yd = d3Interpolate(state.radiusScale.domain(), [focusD.y0, 1]);\<close>
  and every frame \<open>t\<close> sets \<^verbatim>\<open>state.angleScale.domain(xd(t)); state.radiusScale.domain(yd(t))\<close>.
\<close>

definition zoom_frame :: "state \<Rightarrow> real \<Rightarrow> state \<Rightarrow> state" where
  "zoom_frame st0 t st =
     (case zoom st0 of
        None \<Rightarrow> st
      | Some (xt, yt) \<Rightarrow>
          st\<lparr>angleScale := (angleScale st)\<lparr>domain := d3Interpolate (domain (angleScale st0)) xt t\<rparr>,
             radiusScale := (radiusScale st)\<lparr>domain := d3Interpolate (domain (radiusScale st0)) yt t\<rparr>\<rparr>)"

section \<open>Vocabulary of the properties\<close>

text \<open>
  The pre-order walk of a tree (\<^verbatim>\<open>node.eachBefore\<close>: a node, then its children's subtrees
  from left to right). It lists every node of the tree once, and is the order the
  specification names for the ids.
\<close>

fun preorder :: "'a node \<Rightarrow> 'a node list" where
  "preorder (Node r d a cs) = Node r d a cs # concat (map preorder cs)"

text \<open>The \<^verbatim>\<open>depth\<close> fields of a tree are the true depths, counted from \<open>d\<close> at its root.\<close>

fun depth_ok :: "nat \<Rightarrow> 'a node \<Rightarrow> bool" where
  "depth_ok d (Node r k a cs) \<longleftrightarrow> k = d \<and> (\<forall>c \<in> set cs. depth_ok (Suc d) c)"









section \<open>Example inputs\<close>

text \<open>
  The tree \<^verbatim>\<open>A{value:0} -> [B{value:10}, C{value:30}]\<close> (labels as UTF-16 code units), the
  node its layout gives for \<open>B\<close>, and the widget after \<^verbatim>\<open>init\<close> in a 200 by 200 window and
  \<^verbatim>\<open>data(tree)\<close>.
\<close>

definition tree_ABC :: raw where
  "tree_ABC = Raw (Some [65]) (Some 0) [Raw (Some [66]) (Some 10) [], Raw (Some [67]) (Some 30) []]"

definition node_B :: lnode where
  "node_B = Node (Raw (Some [66]) (Some 10) []) 1
              \<lparr>x0 = 0, x1 = 1 / 4, y0 = 1 / 2, y1 = 1, value_of = 10\<rparr> []"

definition st_ABC :: state where
  "st_ABC = set_data (Some tree_ABC) (init 200 200)"




definition tree_ABDC :: raw where
  "tree_ABDC =
     Raw (Some [65]) None
       [Raw (Some [66]) None [Raw (Some [68]) (Some 1) []], Raw (Some [67]) (Some 1) []]"


definition tree_chain :: raw where
  "tree_chain =
     Raw (Some [65]) None [Raw (Some [66]) None [Raw (Some [67]) None [Raw (Some [68]) (Some 1) []]]]"

definition tree_one :: "js_string \<Rightarrow> raw" where
  "tree_one s = Raw (Some s) (Some 1) []"

definition long_label :: js_string where
  "long_label = replicate 50 65"

text \<open>
  \<^verbatim>\<open>focusOnNode(raw)\<close> for the raw node that the current layout placed as node \<open>i\<close>:
  its \<^verbatim>\<open>__dataNode\<close> link is that node.
\<close>

definition focus_on :: "nat \<Rightarrow> state \<Rightarrow> state" where
  "focus_on i st =
     st\<lparr>focusOnNode :=
          Some (Focus (case layoutData st of None \<Rightarrow> None | Some ld \<Rightarrow> map_of ld i))\<rparr>"



definition node_one :: "js_string \<Rightarrow> lnode" where
  "node_one s = d3Partition (sum_values (d3Hierarchy (tree_one s)))"

definition st_one :: "js_string \<Rightarrow> state" where
  "st_one s = update (set_data (Some (tree_one s)) (init (2000 / (11 * pi)) (2000 / (11 * pi))))"

definition st_fit :: "js_string \<Rightarrow> state" where
  "st_fit s = zoom_frame (st_one s) 1 (st_one s)"

definition st_flat :: state where
  "st_flat = update (set_data (Some tree_ABC) (init 0 200))"

definition st_deep :: state where
  "st_deep = update (focus_on 1 (set_data (Some tree_chain) (init 200 200)))"

definition st_out :: state where
  "st_out = update (focus_on 0 (zoom_frame st_deep 1 st_deep))"

definition st_mid :: state where
  "st_mid = zoom_frame st_out (3 / 4) st_out"

definition st_drawn :: state where
  "st_drawn = update st_ABC"

definition st_cleared :: state where
  "st_cleared = update (set_data None st_drawn)"

text \<open>Projections of a layout, of the widget and of the canvas, for reading results off.\<close>

definition ids :: "(nat \<times> lnode) list \<Rightarrow> nat list" where
  "ids ld = map fst ld"

definition labels :: "(nat \<times> lnode) list \<Rightarrow> js_string option list" where
  "labels ld = map (\<lambda>d. raw_label (ndata (snd d))) ld"

definition node_labels :: "lnode list \<Rightarrow> js_string option list" where
  "node_labels ns = map (\<lambda>n. raw_label (ndata n)) ns"

definition spans :: "(nat \<times> lnode) list \<Rightarrow> (real \<times> real) list" where
  "spans ld = map (\<lambda>d. (x0 (attrs (snd d)), x1 (attrs (snd d)))) ld"

definition bands :: "(nat \<times> lnode) list \<Rightarrow> (nat \<times> real \<times> real) list" where
  "bands ld = map (\<lambda>d. (depth (snd d), y0 (attrs (snd d)), y1 (attrs (snd d)))) ld"

definition values_of :: "(nat \<times> lnode) list \<Rightarrow> real list" where
  "values_of ld = map (\<lambda>d. value_of (attrs (snd d))) ld"

definition root_node :: "raw \<Rightarrow> lnode" where
  "root_node r = d3Partition (hierData None r)"


definition shown_ids :: "state \<Rightarrow> nat list" where
  "shown_ids st = (case layoutData st of None \<Rightarrow> [] | Some ld \<Rightarrow> ids (visible st ld))"

definition root_of :: "state \<Rightarrow> lnode option" where
  "root_of st = (case layoutData st of None \<Rightarrow> None | Some ld \<Rightarrow> map_of ld 0)"

definition root_y0 :: "state \<Rightarrow> real option" where
  "root_y0 st = map_option (\<lambda>n. y0 (attrs n)) (root_of st)"

definition root_radius :: "state \<Rightarrow> real option" where
  "root_radius st = map_option (\<lambda>n. radius_at st (y0 (attrs n))) (root_of st)"

definition root_innerRadius :: "state \<Rightarrow> real option" where
  "root_innerRadius st = map_option (innerRadius st) (root_of st)"

definition slice_opacity :: "state \<Rightarrow> nat \<Rightarrow> real option" where
  "slice_opacity st k = map_option opacity (canvas st k)"

definition slice_fade :: "state \<Rightarrow> nat \<Rightarrow> (real \<times> nat) option option" where
  "slice_fade st k = map_option fade (canvas st k)"

definition slice_removed :: "state \<Rightarrow> nat \<Rightarrow> bool option" where
  "slice_removed st k = map_option removed (canvas st k)"

definition slice_arc_tween :: "state \<Rightarrow> nat \<Rightarrow> nat option option" where
  "slice_arc_tween st k = map_option arc_tween (canvas st k)"

lemmas run_layout =
  layout_def hierData_def d3Hierarchy_def d3Partition_def descendants_def to_number_def
  enumerate_eq_zip ids_def labels_def node_labels_def spans_def bands_def values_of_def
  root_node_def

lemmas run_widget =
  set_data_def parseData_def init_def update_def Let_def focusD_def visible_def
  focus_on_def shown_ids_def slice_shown_def js_div_def root_of_def

lemmas run_scale =
  zoom_frame_def d3Interpolate_def interpolateNumber_def radius_at_def angle_at_def bimap_def
  deinterpolatePow_def deinterpolateLinear_def deinterpolateClamp_def raise_def
  innerRadius_def outerRadius_def perimeter_def mean_radius_def deltaAngle_def

lemmas run_join =
  join_def enter_slice_def merge_slice_def exit_slice_def TRANSITION_DURATION_def
  slice_opacity_def slice_fade_def slice_removed_def slice_arc_tween_def

section \<open>Lemmas about the layout\<close>

subsection \<open>Traversals\<close>

lemma preorder_unfold: "preorder n = n # concat (map preorder (children n))"
  by (cases n) simp

lemma mset_preorder_level:
  "mset (concat (map preorder ns)) = mset ns + mset (concat (map preorder (concat (map children ns))))"
proof (induction ns)
  case Nil
  then show ?case by simp
next
  case (Cons n ns)
  have "mset (preorder n) = {#n#} + mset (concat (map preorder (children n)))"
    by (subst preorder_unfold) simp
  with Cons show ?case
    by simp
qed

lemma mset_each: "mset (each ns) = mset (concat (map preorder ns))"
proof (induction ns rule: each.induct)
  case 1
  then show ?case by simp
next
  case (2 n ns)
  have "mset (each (n # ns)) = mset (n # ns) + mset (each (concat (map children (n # ns))))"
    by simp
  also have "\<dots> = mset (n # ns) + mset (concat (map preorder (concat (map children (n # ns)))))"
    using 2 by simp
  also have "\<dots> = mset (concat (map preorder (n # ns)))"
    by (rule mset_preorder_level [symmetric])
  finally show ?case .
qed

lemma mset_descendants: "mset (descendants t) = mset (preorder t)"
  by (simp add: descendants_def mset_each del: each.simps)

lemma set_descendants: "set (descendants t) = set (preorder t)"
  using mset_descendants [of t] by (metis set_mset_mset)

lemma depth_ok_depth: "depth_ok d n \<Longrightarrow> depth n = d"
  by (cases n) simp

lemma depth_ok_children: "depth_ok d n \<Longrightarrow> c \<in> set (children n) \<Longrightarrow> depth_ok (Suc d) c"
  by (cases n) simp

lemma each_by_depth:
  "\<forall>n \<in> set ns. depth_ok d n \<Longrightarrow>
   sorted (map depth (each ns)) \<and> (\<forall>m \<in> set (each ns). d \<le> depth m)"
proof (induction ns arbitrary: d rule: each.induct)
  case 1
  then show ?case by simp
next
  case (2 n ns)
  let ?next = "concat (map children (n # ns))"
  have here: "\<forall>m \<in> set (n # ns). depth m = d"
    using 2(2) by (auto dest: depth_ok_depth)
  have "\<forall>c \<in> set ?next. depth_ok (Suc d) c"
    using 2(2) by (auto dest: depth_ok_children)
  then have below: "sorted (map depth (each ?next))" "\<forall>m \<in> set (each ?next). Suc d \<le> depth m"
    using 2(1) by blast+
  have "sorted (map depth (n # ns))"
    using here by (simp add: sorted_iff_nth_mono) 
  with here below show ?case
    by (auto simp: sorted_append simp del: each.simps(2)) (auto simp: each.simps(2) [of n ns] sorted_append)
qed

subsection \<open>Depths and bands\<close>

lemma depth_ok_hierarchy: "depth_ok d (hierarchy_at d r)"
  by (induction d r rule: hierarchy_at.induct) simp

lemma depth_ok_sum: "depth_ok d t \<Longrightarrow> depth_ok d (sum_values t)"
  by (induction t arbitrary: d rule: sum_values.induct) simp

lemma depth_ok_sort: "depth_ok d t \<Longrightarrow> depth_ok d (sort_nodes cmp t)"
  by (induction cmp t arbitrary: d rule: sort_nodes.induct) (simp add: set_sort_by)

lemma depth_ok_hierData: "depth_ok 0 (hierData srt r)"
  by (simp add: hierData_def d3Hierarchy_def depth_ok_hierarchy depth_ok_sum depth_ok_sort
        split: option.splits)

lemma depth_ok_position:
  "depth_ok d t \<Longrightarrow> depth_ok d (positionNode n a0 b0 a1 b1 t)"
  "\<forall>c \<in> set cs. depth_ok d c \<Longrightarrow> \<forall>c \<in> set (treemapDice n k a0 b0 b1 cs). depth_ok d c"
  by (induction n a0 b0 a1 b1 t and n k a0 b0 b1 cs arbitrary: d and d
      rule: positionNode_treemapDice.induct) simp_all

lemma depth_ok_partition: "depth_ok 0 (d3Partition (hierData srt r))"
  by (simp add: d3Partition_def Let_def depth_ok_position depth_ok_hierData)



subsection \<open>Values\<close>














subsection \<open>Spans\<close>








subsection \<open>The flat list\<close>

lemma snd_layout: "map snd (layout srt r) = descendants (d3Partition (hierData srt r))"
  by (simp add: layout_def)

lemma fst_layout: "map fst (layout srt r) = [0..<length (descendants (d3Partition (hierData srt r)))]"
  by (simp add: layout_def)

lemma layout_nodes:
  "d \<in> set (layout srt r) \<Longrightarrow> snd d \<in> set (preorder (d3Partition (hierData srt r)))"
proof -
  assume "d \<in> set (layout srt r)"
  then have "snd d \<in> set (map snd (layout srt r))"
    by simp
  then show ?thesis
    by (simp only: snd_layout set_descendants)
qed

lemma layout_root: "map_of (layout srt r) 0 = Some (d3Partition (hierData srt r))"
  by (simp add: layout_def descendants_def enumerate_eq_zip upt_conv_Cons del: upt_Suc)


lemma forward_position:
  "\<forall>m \<in> set (preorder (positionNode n a0 b0 a1 b1 t)). x0 (attrs m) \<le> x1 (attrs m)"
  "\<forall>c \<in> set (treemapDice n k a0 b0 b1 cs). \<forall>m \<in> set (preorder c). x0 (attrs m) \<le> x1 (attrs m)"
  by (induction n a0 b0 a1 b1 t and n k a0 b0 b1 cs rule: positionNode_treemapDice.induct)
     simp_all

lemma layout_forward:
  "d \<in> set (layout srt r) \<Longrightarrow> x0 (attrs (snd d)) \<le> x1 (attrs (snd d))"
  using layout_nodes [of d srt r] forward_position(1) [of "height_of (hierData srt r) + 1" 0 0 1]
  by (simp add: d3Partition_def Let_def)

section \<open>Lemmas about the scales, the zoom and the builder\<close>

lemma d3Interpolate_ends: "d3Interpolate a b 0 = a" "d3Interpolate a b 1 = b"
  by (simp_all add: d3Interpolate_def interpolateNumber_def)

lemma raise_sqrt: "raise x = sqrt x"
  by (simp add: raise_def real_sqrt_minus)

lemma radius_at_domain_start:
  "radius_at st (fst (domain (radiusScale st))) = fst (rng (radiusScale st))"
  by (auto simp: radius_at_def bimap_def deinterpolatePow_def interpolateNumber_def raise_sqrt)

lemma innerRadius_at_domain_start:
  "y0 (attrs d) = fst (domain (radiusScale st)) \<Longrightarrow>
   innerRadius st d = max 0 (fst (rng (radiusScale st)))"
  by (simp add: innerRadius_def radius_at_domain_start)

lemma rng_update:
  "rng (radiusScale (update st))
   = (min (width st) (height st) / 2 * (1 / 10), min (width st) (height st) / 2)"
  by (simp add: update_def Let_def split: option.splits)

lemma rng_zoom_frame: "rng (radiusScale (zoom_frame st0 t st)) = rng (radiusScale st)"
  by (simp add: zoom_frame_def split: option.splits prod.splits)

lemma domain_zoom_done:
  "layoutData st \<noteq> None \<Longrightarrow>
   domain (radiusScale (zoom_frame (update st) 1 (update st))) = (y0 (focusD st), 1)"
  by (auto simp: update_def Let_def zoom_frame_def d3Interpolate_ends focusD_def
           split: option.splits)

lemma sqrt_sixteenth: "sqrt (1 / 16) = 1 / 4"
  by (rule real_sqrt_unique) (simp_all add: power2_eq_square)

lemma length_long_label: "length long_label = 50"
  by (simp add: long_label_def)

lemma perimeter_one: "perimeter (st_fit s) (node_one s) = 100"
  by (simp add: st_fit_def st_one_def node_one_def tree_one_def run_widget run_layout run_scale)

lemma parseData_no_data: "data st = None \<Longrightarrow> parseData st = st"
  by (simp add: parseData_def)

lemma update_no_layout:
  "layoutData st = None \<Longrightarrow> canvas (update st) = canvas st \<and> zoom (update st) = zoom st"
  by (simp add: update_def Let_def)

section \<open>Claims about the layout\<close>







text \<open>
  C3, as the code has it. The ids of \<open>layoutData\<close> are \<open>0..N-1\<close> for the \<open>N\<close> nodes of the
  tree, each used once, the root has id 0, and the nodes are the tree's nodes in the order
  of \<^verbatim>\<open>descendants()\<close>, which is breadth-first: by non-decreasing depth. \<^verbatim>\<open>_parseData\<close>
  stores this list whenever data is present.
\<close>

theorem layout_ids:
  "ids (layout srt r) = [0..<length (preorder (d3Partition (hierData srt r)))]
   \<and> distinct (ids (layout srt r))
   \<and> map_of (layout srt r) 0 = Some (d3Partition (hierData srt r))
   \<and> map snd (layout srt r) = descendants (d3Partition (hierData srt r))
   \<and> mset (map snd (layout srt r)) = mset (preorder (d3Partition (hierData srt r)))
   \<and> sorted (map depth (map snd (layout srt r)))
   \<and> (data st = Some r \<longrightarrow> layoutData (parseData st) = Some (layout (sort_cmp st) r))"
proof -
  have len: "length (descendants (d3Partition (hierData srt r)))
      = length (preorder (d3Partition (hierData srt r)))"
    using mset_descendants [of "d3Partition (hierData srt r)"] by (metis size_mset)
  have "sorted (map depth (each [d3Partition (hierData srt r)]))"
    using each_by_depth [of "[d3Partition (hierData srt r)]" 0] depth_ok_partition [of srt r]
    by simp
  then have srt: "sorted (map depth (map snd (layout srt r)))"
    by (simp only: snd_layout descendants_def)
  have "ids (layout srt r) = [0..<length (preorder (d3Partition (hierData srt r)))]"
    by (simp add: ids_def fst_layout len)
  moreover from this have "distinct (ids (layout srt r))"
    by simp
  ultimately show ?thesis
    using srt layout_root [of srt r] snd_layout [of srt r]
      mset_descendants [of "d3Partition (hierData srt r)"]
    by (simp add: parseData_def)
qed

text \<open>C3 at \<open>tree_ABDC\<close>: the ids follow the levels \<open>A\<close>, \<open>B\<close>, \<open>C\<close>, \<open>D\<close>.\<close>

theorem layout_ids_witness:
  "data ((init 200 200)\<lparr>data := Some tree_ABDC\<rparr>) = Some tree_ABDC
   \<and> map_option ids (layoutData (parseData ((init 200 200)\<lparr>data := Some tree_ABDC\<rparr>)))
       = Some [0, 1, 2, 3]
   \<and> map_option labels (layoutData (parseData ((init 200 200)\<lparr>data := Some tree_ABDC\<rparr>)))
       = Some [Some [65], Some [66], Some [67], Some [68]]"
proof -
  have h: "data ((init 200 200)\<lparr>data := Some tree_ABDC\<rparr>) = Some tree_ABDC"
      "sort_cmp ((init 200 200)\<lparr>data := Some tree_ABDC\<rparr>) = None"
    by (simp_all add: init_def)
  have l: "ids (layout None tree_ABDC) = [0, 1, 2, 3]"
      "labels (layout None tree_ABDC) = [Some [65], Some [66], Some [67], Some [68]]"
    by (simp_all add: tree_ABDC_def run_layout)
  from layout_ids [of None tree_ABDC "(init 200 200)\<lparr>data := Some tree_ABDC\<rparr>"] h l
  show ?thesis
    by simp
qed

text \<open>
  C3 as stated fails: in \<open>tree_ABDC\<close> the pre-order is \<open>A\<close>, \<open>B\<close>, \<open>D\<close>, \<open>C\<close>, while ids 2 and
  3 go to \<open>C\<close> and \<open>D\<close>.
\<close>

theorem ids_not_preorder:
  "labels (layout None tree_ABDC) = [Some [65], Some [66], Some [67], Some [68]]
   \<and> ids (layout None tree_ABDC) = [0, 1, 2, 3]
   \<and> node_labels (preorder (root_node tree_ABDC)) = [Some [65], Some [66], Some [68], Some [67]]
   \<and> map snd (layout None tree_ABDC) \<noteq> preorder (root_node tree_ABDC)"
  by (simp add: tree_ABDC_def run_layout)




section \<open>Claims about the render\<close>




text \<open>
  C6, as the code has it. An \<^verbatim>\<open>update\<close> that finds a layout schedules the tween of the
  two domains: from the domains the scales have when the tween starts to
  \<open>[focus.x0, focus.x1]\<close> for the angle scale and \<open>[focus.y0, 1]\<close> for the radius scale,
  interpolated in every frame. When no focus node is resolved (no \<^verbatim>\<open>focusOnNode\<close>, or one
  without a \<^verbatim>\<open>__dataNode\<close> link) the focus window is the constant
  \<open>{x0: 0, x1: 1, y0: 0, y1: 1}\<close>, whatever the total value of the tree.
\<close>

theorem zoom_targets:
  "layoutData st \<noteq> None \<Longrightarrow>
     zoom (update st) = Some ((x0 (focusD st), x1 (focusD st)), (y0 (focusD st), 1))
   \<and> domain (angleScale (zoom_frame (update st) t (update st)))
       = d3Interpolate (domain (angleScale st)) (x0 (focusD st), x1 (focusD st)) t
   \<and> domain (radiusScale (zoom_frame (update st) t (update st)))
       = d3Interpolate (domain (radiusScale st)) (y0 (focusD st), 1) t
   \<and> domain (angleScale (zoom_frame (update st) 1 (update st))) = (x0 (focusD st), x1 (focusD st))
   \<and> domain (radiusScale (zoom_frame (update st) 1 (update st))) = (y0 (focusD st), 1)
   \<and> (focusOnNode st = None \<or> focusOnNode st = Some (Focus None)
        \<longrightarrow> focusD st = \<lparr>x0 = 0, x1 = 1, y0 = 0, y1 = 1\<rparr>)
   \<and> (focusOnNode st = Some (Focus (Some d))
        \<longrightarrow> focusD st = \<lparr>x0 = x0 (attrs d), x1 = x1 (attrs d), y0 = y0 (attrs d), y1 = y1 (attrs d)\<rparr>)"
  by (auto simp: update_def Let_def focusD_def zoom_frame_def d3Interpolate_ends
           split: option.splits)

text \<open>C6 at \<open>st_ABC\<close>, which has a layout and no focus.\<close>

theorem zoom_targets_witness:
  "layoutData st_ABC \<noteq> None
   \<and> focusOnNode st_ABC = None
   \<and> zoom (update st_ABC) = Some ((0, 1), (0, 1))
   \<and> domain (angleScale (zoom_frame (update st_ABC) 1 (update st_ABC))) = (0, 1)
   \<and> domain (radiusScale (zoom_frame (update st_ABC) 1 (update st_ABC))) = (0, 1)"
proof -
  have l: "layoutData st_ABC \<noteq> None"
    by (simp add: st_ABC_def set_data_def parseData_def)
  have f: "focusOnNode st_ABC = None"
    by (simp add: st_ABC_def set_data_def parseData_def init_def)
  from zoom_targets [OF l, of 1] f l show ?thesis
    by (simp add: d3Interpolate_ends)
qed

text \<open>
  C6 as stated fails: the tree \<open>tree_ABC\<close> has total value 40, and with no focus the
  window is \<open>{x0: 0, x1: 1, y0: 0, y1: 1}\<close>, not \<open>{x0: 0, x1: 40, y0: 0, y1: 1}\<close>; the
  angle domain is sent to \<open>[0, 1]\<close>. And a render that finds no layout returns before it
  schedules any tween.
\<close>

theorem sentinel_is_not_total_value:
  "focusOnNode st_ABC = None
   \<and> map_option values_of (layoutData st_ABC) = Some [40, 10, 30]
   \<and> focusD st_ABC = \<lparr>x0 = 0, x1 = 1, y0 = 0, y1 = 1\<rparr>
   \<and> focusD st_ABC \<noteq> \<lparr>x0 = 0, x1 = 40, y0 = 0, y1 = 1\<rparr>
   \<and> zoom (update st_ABC) = Some ((0, 1), (0, 1))
   \<and> layoutData (init 200 200) = None
   \<and> zoom (update (init 200 200)) = None"
  by (simp add: st_ABC_def tree_ABC_def run_widget run_layout)

text \<open>
  C7, as the code has it. For a node with a label, the label is shown exactly when
  \<^verbatim>\<open>showLabels\<close> is on and \<open>len(label) * CHAR_PX < mean_radius * angular_sweep\<close>, with
  \<open>CHAR_PX = 6\<close>; otherwise its display is \<^verbatim>\<open>'none'\<close>, and the text of the label is always
  the whole label. A label of 50 code units on a wedge of perimeter 100 is hidden.
\<close>

theorem label_shown_iff:
  "raw_label (ndata d) = Some s \<Longrightarrow>
     (label_display st d = Inr Shown \<longleftrightarrow>
        showLabels st \<and> real (length s) * CHAR_PX < mean_radius st d * deltaAngle st d)
   \<and> CHAR_PX = 6
   \<and> (label_display st d \<noteq> Inr Shown \<longrightarrow> label_display st d = Inr DisplayNone)
   \<and> (length s = 50 \<and> mean_radius st d * deltaAngle st d = 100
        \<longrightarrow> label_display st d = Inr DisplayNone)
   \<and> label_text (merge_slice (i, d) e) = s"
  by (auto simp: label_display_def textFits_def perimeter_def CHAR_PX_def merge_slice_def)

text \<open>C7 at the label of 50 code units on the wedge of perimeter 100.\<close>

theorem label_shown_iff_witness:
  "raw_label (ndata (node_one long_label)) = Some long_label
   \<and> length long_label = 50
   \<and> mean_radius (st_fit long_label) (node_one long_label)
       * deltaAngle (st_fit long_label) (node_one long_label) = 100
   \<and> showLabels (st_fit long_label)
   \<and> label_display (st_fit long_label) (node_one long_label) = Inr DisplayNone"
proof -
  have l: "raw_label (ndata (node_one long_label)) = Some long_label"
    by (simp add: node_one_def tree_one_def d3Partition_def d3Hierarchy_def)
  have p: "mean_radius (st_fit long_label) (node_one long_label)
       * deltaAngle (st_fit long_label) (node_one long_label) = 100"
    using perimeter_one [of long_label] by (simp add: perimeter_def)
  have s: "showLabels (st_fit long_label)"
    by (simp add: st_fit_def st_one_def zoom_frame_def update_def set_data_def parseData_def
          init_def Let_def split: option.splits prod.splits)
  from label_shown_iff [OF l, of "st_fit long_label"] p length_long_label
  have "label_display (st_fit long_label) (node_one long_label) = Inr DisplayNone"
    by blast
  with l p s length_long_label show ?thesis
    by blast
qed

text \<open>
  C7 as stated fails: with \<^verbatim>\<open>showLabels(false)\<close> the one-unit label \<open>A\<close> passes the fit
  test on a wedge of perimeter 100 and is hidden all the same. And for a node whose label
  accessor gives nothing, the fit test throws.
\<close>

theorem fitting_label_hidden:
  "raw_label (ndata (node_one [65])) = Some [65]
   \<and> perimeter ((st_fit [65])\<lparr>showLabels := False\<rparr>) (node_one [65]) = 100
   \<and> real (length [65 :: 16 word]) * CHAR_PX < perimeter ((st_fit [65])\<lparr>showLabels := False\<rparr>) (node_one [65])
   \<and> label_display ((st_fit [65])\<lparr>showLabels := False\<rparr>) (node_one [65]) = Inr DisplayNone
   \<and> showLabels (init 200 200)
   \<and> label_display (init 200 200) (Node (Raw None None []) 0 \<lparr>x0 = 0, x1 = 1, y0 = 0, y1 = 1, value_of = 0\<rparr> [])
       = Inl TypeError"
proof -
  have "perimeter ((st_fit [65])\<lparr>showLabels := False\<rparr>) (node_one [65]) = perimeter (st_fit [65]) (node_one [65])"
    by (simp add: run_scale)
  then have "perimeter ((st_fit [65])\<lparr>showLabels := False\<rparr>) (node_one [65]) = 100"
    by (simp add: perimeter_one)
  then show ?thesis
    by (simp add: label_display_def textFits_def init_def CHAR_PX_def node_one_def tree_one_def
          d3Partition_def d3Hierarchy_def)
qed

text \<open>
  C8 on the first render of \<open>tree_ABC\<close>, where every node enters. Node 1 is created with
  opacity 0 and the three listeners; the merged selection then sets its opacity to 1 at
  once, and no transition of the opacity is scheduled for it: only the arc tweens over
  750. The exit path is the one that fades, to 0 over 750.
\<close>

theorem entering_slice_not_faded:
  "canvas st_ABC 1 = None
   \<and> shown_ids st_ABC = [0, 1, 2]
   \<and> opacity (enter_slice (1, node_B)) = 0
   \<and> listeners (enter_slice (1, node_B)) = [''click'', ''mouseover'', ''mouseout'']
   \<and> canvas (update st_ABC) 1 = Some (merge_slice (1, node_B) (enter_slice (1, node_B)))
   \<and> slice_opacity (update st_ABC) 1 = Some 1
   \<and> slice_fade (update st_ABC) 1 = Some None
   \<and> slice_arc_tween (update st_ABC) 1 = Some (Some 750)
   \<and> fade (exit_slice (enter_slice (1, node_B))) = Some (0, 750)"
  by (simp add: st_ABC_def tree_ABC_def node_B_def run_widget run_layout run_join)

text \<open>
  C9 where data was set and then cleared. Before any data the widget has no layout and
  \<^verbatim>\<open>update\<close> draws nothing. After \<^verbatim>\<open>data(null)\<close> the builder does nothing, so the layout of
  \<open>tree_ABC\<close> stays, and the next \<^verbatim>\<open>update\<close> keeps its three slices on the canvas at
  opacity 1, none of them scheduled for removal.
\<close>

theorem cleared_data_still_drawn:
  "data (init 200 200) = None \<and> layoutData (init 200 200) = None
   \<and> canvas (update (init 200 200)) = Map.empty
   \<and> data (set_data None st_drawn) = None
   \<and> map_option ids (layoutData (set_data None st_drawn)) = Some [0, 1, 2]
   \<and> shown_ids (set_data None st_drawn) = [0, 1, 2]
   \<and> slice_opacity st_cleared 0 = Some 1 \<and> slice_removed st_cleared 0 = Some False
   \<and> slice_opacity st_cleared 1 = Some 1 \<and> slice_removed st_cleared 1 = Some False
   \<and> slice_opacity st_cleared 2 = Some 1 \<and> slice_removed st_cleared 2 = Some False"
  by (simp add: st_cleared_def st_drawn_def st_ABC_def tree_ABC_def run_widget run_layout run_join)

text \<open>
  C10, as the code has it. Every \<^verbatim>\<open>update\<close> sets the range of the radius scale to
  \<open>[0.1 * maxRadius, maxRadius]\<close> with \<open>maxRadius = min(width, height) / 2\<close>, and no frame
  of the zoom changes it. When width and height are positive, a wedge whose \<open>y0\<close> is the
  start of the radial domain has the inner radius \<open>0.1 * maxRadius > 0\<close>; so has the focused
  node once the zoom onto it has completed.
\<close>

theorem central_hole:
  "rng (radiusScale (update st))
     = (min (width st) (height st) / 2 * (1 / 10), min (width st) (height st) / 2)
   \<and> rng (radiusScale (zoom_frame st0 t (update st))) = rng (radiusScale (update st))
   \<and> (0 < width st \<and> 0 < height st
        \<and> y0 (attrs d) = fst (domain (radiusScale (zoom_frame st0 t (update st))))
        \<longrightarrow> innerRadius (zoom_frame st0 t (update st)) d = min (width st) (height st) / 2 * (1 / 10)
          \<and> 0 < innerRadius (zoom_frame st0 t (update st)) d)
   \<and> (0 < width st \<and> 0 < height st \<and> layoutData st \<noteq> None
        \<and> focusOnNode st = Some (Focus (Some d))
        \<longrightarrow> innerRadius (zoom_frame (update st) 1 (update st)) d
              = min (width st) (height st) / 2 * (1 / 10)
          \<and> 0 < innerRadius (zoom_frame (update st) 1 (update st)) d)"
proof -
  let ?R = "min (width st) (height st) / 2"
  have a: "rng (radiusScale (update st)) = (?R * (1 / 10), ?R)"
    by (rule rng_update)
  have b: "rng (radiusScale (zoom_frame s u (update st))) = rng (radiusScale (update st))" for s u
    by (rule rng_zoom_frame)
  have c: "innerRadius (zoom_frame s u (update st)) d = ?R * (1 / 10)
           \<and> 0 < innerRadius (zoom_frame s u (update st)) d"
    if "0 < width st" "0 < height st"
       "y0 (attrs d) = fst (domain (radiusScale (zoom_frame s u (update st))))" for s u
    using that innerRadius_at_domain_start [OF that(3)] by (simp add: a b)
  have "y0 (attrs d) = fst (domain (radiusScale (zoom_frame (update st) 1 (update st))))"
    if "layoutData st \<noteq> None" "focusOnNode st = Some (Focus (Some d))"
    using that by (simp add: domain_zoom_done focusD_def)
  with a b c show ?thesis
    by blast
qed

text \<open>C10 at \<open>tree_ABC\<close> with the focus on \<open>B\<close>, in the 200 by 200 window.\<close>

theorem central_hole_witness:
  "0 < width (focus_on 1 st_ABC) \<and> 0 < height (focus_on 1 st_ABC)
   \<and> layoutData (focus_on 1 st_ABC) \<noteq> None
   \<and> focusOnNode (focus_on 1 st_ABC) = Some (Focus (Some node_B))
   \<and> rng (radiusScale (update (focus_on 1 st_ABC))) = (10, 100)
   \<and> innerRadius (zoom_frame (update (focus_on 1 st_ABC)) 1 (update (focus_on 1 st_ABC))) node_B = 10"
proof -
  have h: "0 < width (focus_on 1 st_ABC)" "0 < height (focus_on 1 st_ABC)"
      "layoutData (focus_on 1 st_ABC) \<noteq> None"
      "focusOnNode (focus_on 1 st_ABC) = Some (Focus (Some node_B))"
      "min (width (focus_on 1 st_ABC)) (height (focus_on 1 st_ABC)) = 200"
    by (simp_all add: st_ABC_def tree_ABC_def node_B_def run_widget run_layout)
  from central_hole [of "focus_on 1 st_ABC" _ _ node_B] h show ?thesis
    by simp
qed

text \<open>
  C10 as stated fails. With width 0 the range is \<open>[0, 0]\<close> and the wedge at the start of
  the radial domain has inner radius 0. In a 200 by 200 window, three quarters through
  the zoom from \<open>B\<close> back to the root, the radial domain is \<open>[1/16, 1]\<close>: the focused
  root's \<open>y0 = 0\<close> scales to \<open>-20\<close> and its inner edge is drawn at radius 0.
\<close>

theorem hole_closes:
  "width st_flat = 0
   \<and> domain (radiusScale st_flat) = (0, 1)
   \<and> rng (radiusScale st_flat) = (0, 0)
   \<and> root_y0 st_flat = Some 0
   \<and> root_innerRadius st_flat = Some 0
   \<and> width st_mid = 200 \<and> height st_mid = 200
   \<and> focusOnNode st_mid = Some (Focus (root_of st_mid))
   \<and> domain (radiusScale st_mid) = (1 / 16, 1)
   \<and> rng (radiusScale st_mid) = (10, 100)
   \<and> root_y0 st_mid = Some 0
   \<and> root_radius st_mid = Some (- 20)
   \<and> root_innerRadius st_mid = Some 0"
  by (simp add: st_flat_def st_mid_def st_out_def st_deep_def tree_chain_def tree_ABC_def
        root_y0_def root_radius_def root_innerRadius_def
        run_widget run_layout run_scale sqrt_sixteenth)

end
